theory Spec2Isabelle
  imports Complex_Main "HOL-Library.Word"
begin

unbundle bit_operations_syntax

section \<open>Data model of \<open>main.cpp\<close>\<close>

text \<open>
  The application consists of three handlers (\<open>app_event_handler\<close>, \<open>ble_data_handler\<close>,
  \<open>lora_data_handler\<close>) that read and write global variables and call into the
  WisBlock API. The globals become the fields of one record of the program state; every
  call that leaves \<open>main.cpp\<close> is appended to the field \<open>calls\<close>, in the order in which
  the code makes it, with the arguments it passes. Values that such a call returns to
  the handler (battery samples, the result of \<open>send_lora_packet\<close>, the bytes waiting on
  the BLE UART) are inputs of the model and are fields of the state as well.
\<close>

type_synonym uint8_t = "8 word"
type_synonym uint16_t = "16 word"

datatype lmh_confirm = LMH_UNCONFIRMED_MSG | LMH_CONFIRMED_MSG

datatype lmh_error_status = LMH_SUCCESS | LMH_BUSY | LMH_ERROR

datatype pin = WB_IO2

datatype level = LOW | HIGH

datatype lpp_type = LPP_VOLTAGE

record lpp_record =
  lpp_channel :: uint8_t
  lpp_kind :: lpp_type
  lpp_value :: real

record s_lorawan_settings =
  lorawan_enable :: bool
  confirmed_msg_enabled :: lmh_confirm

datatype call =
    PRINTF string
  | BLE_UART_PRINTF string
  | DigitalWrite pin level
  | ReadBatt
  | SendLoraPacket "lpp_record list" nat
  | SendP2PPacket "lpp_record list"
  | LmhGetNwSkey
  | LmhGetAppSkey
  | AtSerialInput uint8_t
  | Delay nat
  | ApiReset

record app_state =
  g_task_event_type :: uint16_t
  g_enable_ble :: bool
  g_ble_uart_is_connected :: bool
  g_lorawan_settings :: s_lorawan_settings
  g_lpwan_has_joined :: bool
  g_join_result :: bool
  g_rx_fin_result :: bool
  send_fail :: uint8_t
  payload :: "lpp_record list"
  batt_source :: "nat \<Rightarrow> real"
  batt_reads :: nat
  send_lora_result :: lmh_error_status
  ble_rx :: "uint8_t list"
  calls :: "call list"
  restarted :: bool

text \<open>
  \<open>batt_source s k\<close> is the value that the \<open>k\<close>-th call of \<open>read_batt\<close> returns and
  \<open>batt_reads\<close> counts the calls made so far; \<open>send_lora_result\<close> is what
  \<open>send_lora_packet\<close> answers; \<open>ble_rx\<close> holds the bytes that \<open>g_ble_uart\<close> has received
  and not yet handed out, oldest first. The C \<open>float\<close> and \<open>double\<close> values of the battery
  computation are real numbers here: the rounding of the machine arithmetic is not part
  of the model.
\<close>

subsection \<open>Event flags\<close>

text \<open>
  Modelled from the spec: the event masks of the WisBlock API header, which is not among
  the sources. Each event kind is one bit of the 16-bit flag word and the mask \<open>N_k\<close>
  is the complement of the bit of kind \<open>k\<close>.
\<close>

definition STATUS :: uint16_t where "STATUS = 0x0001"
definition N_STATUS :: uint16_t where "N_STATUS = 0xFFFE"
definition BLE_DATA :: uint16_t where "BLE_DATA = 0x0004"
definition N_BLE_DATA :: uint16_t where "N_BLE_DATA = 0xFFFB"
definition LORA_DATA :: uint16_t where "LORA_DATA = 0x0008"
definition N_LORA_DATA :: uint16_t where "N_LORA_DATA = 0xFFF7"
definition LORA_TX_FIN :: uint16_t where "LORA_TX_FIN = 0x0010"
definition N_LORA_TX_FIN :: uint16_t where "N_LORA_TX_FIN = 0xFFEF"
definition LORA_JOIN_FIN :: uint16_t where "LORA_JOIN_FIN = 0x0040"
definition N_LORA_JOIN_FIN :: uint16_t where "N_LORA_JOIN_FIN = 0xFFBF"

text \<open>
  Modelled from the spec: the channel number of the battery reading, a constant of the
  WisBlock API header.
\<close>

definition LPP_CHANNEL_BATT :: uint8_t where "LPP_CHANNEL_BATT = 1"

section \<open>Calls into the platform\<close>

definition call_out :: "call \<Rightarrow> app_state \<Rightarrow> app_state" where
  "call_out c s = s\<lparr>calls := calls s @ [c]\<rparr>"

text \<open>
  The macro \<open>MYLOG\<close> with \<open>MY_DEBUG = 1\<close>: three \<open>PRINTF\<close> calls, then two calls of
  \<open>g_ble_uart.printf\<close> when the BLE UART is connected. Every use in \<open>main.cpp\<close> passes a
  string literal as tag, so the test \<open>if (tag)\<close> succeeds. The trace keeps the format
  string of the message; the values substituted for its conversions are not modelled.
\<close>

definition MYLOG :: "string \<Rightarrow> string \<Rightarrow> app_state \<Rightarrow> app_state" where
  "MYLOG tag msg s =
     (let s1 = call_out (PRINTF (''['' @ tag @ ''] '')) s;
          s2 = call_out (PRINTF msg) s1;
          s3 = call_out (PRINTF [CHR 0x0A]) s2
      in if g_ble_uart_is_connected s3
         then call_out (BLE_UART_PRINTF [CHR 0x0A]) (call_out (BLE_UART_PRINTF msg) s3)
         else s3)"

definition digitalWrite :: "pin \<Rightarrow> level \<Rightarrow> app_state \<Rightarrow> app_state" where
  "digitalWrite p v s = call_out (DigitalWrite p v) s"

definition delay :: "nat \<Rightarrow> app_state \<Rightarrow> app_state" where
  "delay ms s = call_out (Delay ms) s"

definition read_batt :: "app_state \<Rightarrow> real \<times> app_state" where
  "read_batt s =
     (batt_source s (batt_reads s),
      call_out ReadBatt (s\<lparr>batt_reads := batt_reads s + 1\<rparr>))"

definition send_lora_packet :: "lpp_record list \<Rightarrow> nat \<Rightarrow> app_state \<Rightarrow> lmh_error_status \<times> app_state" where
  "send_lora_packet buf fport s = (send_lora_result s, call_out (SendLoraPacket buf fport) s)"

definition send_p2p_packet :: "lpp_record list \<Rightarrow> app_state \<Rightarrow> app_state" where
  "send_p2p_packet buf s = call_out (SendP2PPacket buf) s"

definition lmh_getNwSkey :: "app_state \<Rightarrow> app_state" where
  "lmh_getNwSkey s = call_out LmhGetNwSkey s"

definition lmh_getAppSkey :: "app_state \<Rightarrow> app_state" where
  "lmh_getAppSkey s = call_out LmhGetAppSkey s"

definition at_serial_input :: "uint8_t \<Rightarrow> app_state \<Rightarrow> app_state" where
  "at_serial_input b s = call_out (AtSerialInput b) s"

text \<open>
  Modelled from the spec: \<open>api_reset\<close>, the platform's unconditional reboot. The call is
  recorded and the state is marked as restarted: the process lifetime ends there.
\<close>

definition api_reset :: "app_state \<Rightarrow> app_state" where
  "api_reset s = (call_out ApiReset s)\<lparr>restarted := True\<rparr>"

text \<open>
  \<open>g_ble_uart.available()\<close> and \<open>g_ble_uart.read()\<close>: the number of waiting bytes, and the
  oldest waiting byte, which is removed. On an empty buffer \<open>read\<close> returns \<open>-1\<close>, which
  the cast \<open>uint8_t(...)\<close> of the caller turns into 255.
\<close>

definition ble_uart_available :: "app_state \<Rightarrow> nat" where
  "ble_uart_available s = length (ble_rx s)"

definition ble_uart_read :: "app_state \<Rightarrow> uint8_t \<times> app_state" where
  "ble_uart_read s =
     (case ble_rx s of
        [] \<Rightarrow> (255, s)
      | b # bs \<Rightarrow> (b, s\<lparr>ble_rx := bs\<rparr>))"

subsection \<open>The payload encoder\<close>

text \<open>
  Modelled from the spec: the class \<open>WisCayenne\<close> of the WisBlock API, which is not among
  the sources. The buffer is an ordered sequence of records (channel, type, value) with
  a capacity in bytes, here the 255 of \<open>WisCayenne payload(255)\<close>; \<open>reset\<close> empties it and
  \<open>addVoltage\<close> appends one voltage record when the remaining capacity suffices. A voltage
  record takes four bytes: channel, type and a two-byte value.
\<close>

definition payload_maxsize :: nat where
  "payload_maxsize = 255"

definition LPP_VOLTAGE_SIZE :: nat where
  "LPP_VOLTAGE_SIZE = 4"

fun lpp_size :: "lpp_record list \<Rightarrow> nat" where
  "lpp_size [] = 0"
| "lpp_size (r # rs) = (case lpp_kind r of LPP_VOLTAGE \<Rightarrow> LPP_VOLTAGE_SIZE) + lpp_size rs"

definition payload_reset :: "app_state \<Rightarrow> app_state" where
  "payload_reset s = s\<lparr>payload := []\<rparr>"

definition payload_addVoltage :: "uint8_t \<Rightarrow> real \<Rightarrow> app_state \<Rightarrow> app_state" where
  "payload_addVoltage channel v s =
     (if lpp_size (payload s) + LPP_VOLTAGE_SIZE > payload_maxsize then s
      else s\<lparr>payload := payload s @
             [\<lparr>lpp_channel = channel, lpp_kind = LPP_VOLTAGE, lpp_value = v\<rparr>]\<rparr>)"

section \<open>The handlers\<close>

subsection \<open>\<open>app_event_handler\<close>\<close>

text \<open>
  The loop \<open>for (int readings = 0; readings < 10; readings++) batt_level_f += read_batt();\<close>
  with the loop counter and the accumulator as arguments.
\<close>

function batt_loop :: "int \<Rightarrow> real \<Rightarrow> app_state \<Rightarrow> real \<times> app_state" where
  "batt_loop readings batt_level_f s =
     (if readings < 10
      then (case read_batt s of (v, s') \<Rightarrow> batt_loop (readings + 1) (batt_level_f + v) s')
      else (batt_level_f, s))"
  by pat_completeness auto
termination
  by (relation "measure (\<lambda>(readings, batt_level_f, s). nat (10 - readings))") auto

declare batt_loop.simps [simp del]

text \<open>The body of the branch \<open>if ((g_task_event_type & STATUS) == STATUS)\<close> after the flag is cleared.\<close>

definition status_event :: "app_state \<Rightarrow> app_state" where
  "status_event s =
     (let s1 = MYLOG ''APP'' ''Timer wakeup'' s;
          s2 = digitalWrite WB_IO2 HIGH s1;
          s3 = payload_reset s2;
          (batt_sum, s4) = batt_loop 0 0 s3;
          batt_level_f = batt_sum / 10;
          s5 = payload_addVoltage LPP_CHANNEL_BATT (batt_level_f / 1000) s4;
          s6 = (if lorawan_enable (g_lorawan_settings s5)
                then (if g_lpwan_has_joined s5
                      then (case send_lora_packet (payload s5) 2 s5 of
                              (LMH_SUCCESS, t) \<Rightarrow> MYLOG ''APP'' ''Packet enqueued'' t
                            | (LMH_BUSY, t) \<Rightarrow> MYLOG ''APP'' ''LoRa transceiver is busy'' t
                            | (LMH_ERROR, t) \<Rightarrow>
                                MYLOG ''APP'' ''Packet error, too big to send with current DR'' t)
                      else MYLOG ''APP'' ''Network not joined, skip sending'' s5)
                else send_p2p_packet (payload s5) s5)
      in digitalWrite WB_IO2 LOW s6)"

definition app_event_handler :: "app_state \<Rightarrow> app_state" where
  "app_event_handler s =
     (if g_task_event_type s AND STATUS = STATUS
      then status_event (s\<lparr>g_task_event_type := g_task_event_type s AND N_STATUS\<rparr>)
      else s)"

subsection \<open>\<open>ble_data_handler\<close>\<close>

text \<open>The loop \<open>while (g_ble_uart.available() > 0)\<close>.\<close>

function ble_uart_loop :: "app_state \<Rightarrow> app_state" where
  "ble_uart_loop s =
     (if ble_uart_available s > 0
      then (case ble_uart_read s of (b, s1) \<Rightarrow> ble_uart_loop (delay 5 (at_serial_input b s1)))
      else s)"
  by pat_completeness auto
termination
  by (relation "measure (\<lambda>s. length (ble_rx s))")
     (auto simp: ble_uart_available_def ble_uart_read_def delay_def at_serial_input_def
        call_out_def split: list.splits)

declare ble_uart_loop.simps [simp del]

text \<open>What the handler does after it has cleared \<open>BLE_DATA\<close>.\<close>

definition ble_data_event :: "app_state \<Rightarrow> app_state" where
  "ble_data_event s = at_serial_input 0x0A (ble_uart_loop s)"

definition ble_data_handler :: "app_state \<Rightarrow> app_state" where
  "ble_data_handler s =
     (if g_enable_ble s
      then (if g_task_event_type s AND BLE_DATA = BLE_DATA
            then (let s1 = MYLOG ''AT'' ''RECEIVED BLE'' s
                  in ble_data_event (s1\<lparr>g_task_event_type := g_task_event_type s1 AND N_BLE_DATA\<rparr>))
            else s)
      else s)"

subsection \<open>\<open>lora_data_handler\<close>\<close>

text \<open>
  The handler is three blocks in sequence, one per event kind. Each block tests its
  bit, clears it and then runs the function named \<open>..._event\<close> below.
\<close>

definition lora_join_fin_event :: "app_state \<Rightarrow> app_state" where
  "lora_join_fin_event s =
     (if g_join_result s
      then (let s1 = MYLOG ''APP'' ''Successfully joined network'' s;
                s2 = lmh_getNwSkey s1;
                s3 = MYLOG ''APP''
                       ''NwSkey = %02X%02X%02X%02X%02X%02X%02X%02X%02X%02X%02X%02X%02X%02X%02X%02X'' s2;
                s4 = lmh_getAppSkey s3;
                s5 = MYLOG ''APP''
                       ''AppSkey = %02X%02X%02X%02X%02X%02X%02X%02X%02X%02X%02X%02X%02X%02X%02X%02X'' s4
            in MYLOG ''APP'' ''DevAddr = %04LX'' s5)
      else MYLOG ''APP'' ''Join network failed'' s)"

text \<open>
  The data block formats the received bytes into a local buffer and logs it; the text
  of that buffer is not modelled.
\<close>

definition lora_data_event :: "app_state \<Rightarrow> app_state" where
  "lora_data_event s =
     (let s1 = MYLOG ''APP'' ''Received package over LoRa'' s;
          s2 = MYLOG ''APP'' ''RSSI %d SNR %d'' s1
      in MYLOG ''APP'' ''%s'' s2)"

definition lora_tx_fin_event :: "app_state \<Rightarrow> app_state" where
  "lora_tx_fin_event s =
     (if lorawan_enable (g_lorawan_settings s)
      then (let s1 = (if confirmed_msg_enabled (g_lorawan_settings s) = LMH_UNCONFIRMED_MSG
                      then MYLOG ''APP'' ''LPWAN TX cycle finished'' s
                      else MYLOG ''APP'' (''LPWAN TX cycle '' @
                             (if g_rx_fin_result s then ''finished ACK'' else ''failed NAK'')) s)
            in if \<not> g_rx_fin_result s1
               then (let s2 = s1\<lparr>send_fail := send_fail s1 + 1\<rparr>
                     in if send_fail s2 = 10
                        then api_reset (delay 100 s2)
                        else s2)
               else s1)
      else MYLOG ''APP'' ''P2P TX finished'' s)"

definition lora_join_fin_block :: "app_state \<Rightarrow> app_state" where
  "lora_join_fin_block s =
     (if g_task_event_type s AND LORA_JOIN_FIN = LORA_JOIN_FIN
      then lora_join_fin_event (s\<lparr>g_task_event_type := g_task_event_type s AND N_LORA_JOIN_FIN\<rparr>)
      else s)"

definition lora_data_block :: "app_state \<Rightarrow> app_state" where
  "lora_data_block s =
     (if g_task_event_type s AND LORA_DATA = LORA_DATA
      then lora_data_event (s\<lparr>g_task_event_type := g_task_event_type s AND N_LORA_DATA\<rparr>)
      else s)"

definition lora_tx_fin_block :: "app_state \<Rightarrow> app_state" where
  "lora_tx_fin_block s =
     (if g_task_event_type s AND LORA_TX_FIN = LORA_TX_FIN
      then lora_tx_fin_event (s\<lparr>g_task_event_type := g_task_event_type s AND N_LORA_TX_FIN\<rparr>)
      else s)"

definition lora_data_handler :: "app_state \<Rightarrow> app_state" where
  "lora_data_handler s = lora_tx_fin_block (lora_data_block (lora_join_fin_block s))"

section \<open>Observing one handler invocation\<close>

text \<open>The calls made between a state and a later one.\<close>

definition cycle_calls :: "app_state \<Rightarrow> app_state \<Rightarrow> call list" where
  "cycle_calls s s' = drop (length (calls s)) (calls s')"

fun is_tx :: "call \<Rightarrow> bool" where
  "is_tx (SendLoraPacket buf fport) = True"
| "is_tx (SendP2PPacket buf) = True"
| "is_tx c = False"

fun tx_payload :: "call \<Rightarrow> lpp_record list" where
  "tx_payload (SendLoraPacket buf fport) = buf"
| "tx_payload (SendP2PPacket buf) = buf"
| "tx_payload c = []"

fun is_at_input :: "call \<Rightarrow> bool" where
  "is_at_input (AtSerialInput b) = True"
| "is_at_input c = False"

fun is_log :: "call \<Rightarrow> bool" where
  "is_log (PRINTF m) = True"
| "is_log (BLE_UART_PRINTF m) = True"
| "is_log c = False"

text \<open>
  The record that \<open>status_event\<close> encodes: the sum of the next ten battery samples,
  divided by 10 and by 1000, on the battery channel.
\<close>

definition batt_record :: "app_state \<Rightarrow> lpp_record" where
  "batt_record s =
     \<lparr>lpp_channel = LPP_CHANNEL_BATT, lpp_kind = LPP_VOLTAGE,
      lpp_value = (\<Sum>k < 10. batt_source s (batt_reads s + k)) / 10 / 1000\<rparr>"

subsection \<open>Event producers\<close>

text \<open>
  Modelled from the spec: a producer of the WisBlock API (not among the sources) sets
  the bit of its event kind in the flag word.
\<close>

definition api_wake_loop :: "uint16_t \<Rightarrow> app_state \<Rightarrow> app_state" where
  "api_wake_loop reason s = s\<lparr>g_task_event_type := g_task_event_type s OR reason\<rparr>"

text \<open>
  Modelled from the spec: the radio stack's notification tx-complete(acknowledged)
  stores the acknowledgment result and raises \<open>LORA_TX_FIN\<close>.
\<close>

definition tx_complete :: "bool \<Rightarrow> app_state \<Rightarrow> app_state" where
  "tx_complete acknowledged s = api_wake_loop LORA_TX_FIN (s\<lparr>g_rx_fin_result := acknowledged\<rparr>)"

text \<open>
  A sequence of tx-finished events, each handled by \<open>lora_data_handler\<close> before the next
  arrives. Once \<open>api_reset\<close> has been called the process has ended and handles no
  further event.
\<close>

fun tx_finished_events :: "bool list \<Rightarrow> app_state \<Rightarrow> app_state" where
  "tx_finished_events [] s = s"
| "tx_finished_events (a # as) s =
     (if restarted s then s
      else tx_finished_events as (lora_data_handler (tx_complete a s)))"

subsection \<open>A concrete state\<close>

text \<open>
  A joined node in confirmed mode with a constant battery reading of 4200 mV, no event
  pending and an empty call trace.
\<close>

definition joined_state :: app_state where
  "joined_state =
     \<lparr>g_task_event_type = 0, g_enable_ble = True, g_ble_uart_is_connected = False,
      g_lorawan_settings = \<lparr>lorawan_enable = True, confirmed_msg_enabled = LMH_CONFIRMED_MSG\<rparr>,
      g_lpwan_has_joined = True, g_join_result = True, g_rx_fin_result = True,
      send_fail = 0, payload = [], batt_source = (\<lambda>k. 4200), batt_reads = 0,
      send_lora_result = LMH_SUCCESS, ble_rx = [], calls = [], restarted = False\<rparr>"

subsection \<open>The traces of the handlers\<close>

text \<open>The calls of one \<open>MYLOG\<close>.\<close>

definition log_lines :: "bool \<Rightarrow> string \<Rightarrow> string \<Rightarrow> call list" where
  "log_lines ble tag msg =
     [PRINTF (''['' @ tag @ ''] ''), PRINTF msg, PRINTF [CHR 0x0A]] @
     (if ble then [BLE_UART_PRINTF msg, BLE_UART_PRINTF [CHR 0x0A]] else [])"

text \<open>The message logged for each result of \<open>send_lora_packet\<close>.\<close>

definition enqueue_message :: "lmh_error_status \<Rightarrow> string" where
  "enqueue_message r =
     (case r of LMH_SUCCESS \<Rightarrow> ''Packet enqueued''
      | LMH_BUSY \<Rightarrow> ''LoRa transceiver is busy''
      | LMH_ERROR \<Rightarrow> ''Packet error, too big to send with current DR'')"

text \<open>The calls of the transmission step of \<open>status_event\<close>.\<close>

definition status_tx_calls :: "app_state \<Rightarrow> call list" where
  "status_tx_calls s =
     (if lorawan_enable (g_lorawan_settings s)
      then (if g_lpwan_has_joined s
            then SendLoraPacket [batt_record s] 2 #
                 log_lines (g_ble_uart_is_connected s) ''APP'' (enqueue_message (send_lora_result s))
            else log_lines (g_ble_uart_is_connected s) ''APP'' ''Network not joined, skip sending'')
      else [SendP2PPacket [batt_record s]])"

text \<open>The calls of \<open>lora_join_fin_event\<close>, \<open>lora_data_event\<close> and of the log line of \<open>lora_tx_fin_event\<close>.\<close>

definition join_fin_calls :: "app_state \<Rightarrow> call list" where
  "join_fin_calls s =
     (if g_join_result s
      then log_lines (g_ble_uart_is_connected s) ''APP'' ''Successfully joined network'' @
           [LmhGetNwSkey] @
           log_lines (g_ble_uart_is_connected s) ''APP''
             ''NwSkey = %02X%02X%02X%02X%02X%02X%02X%02X%02X%02X%02X%02X%02X%02X%02X%02X'' @
           [LmhGetAppSkey] @
           log_lines (g_ble_uart_is_connected s) ''APP''
             ''AppSkey = %02X%02X%02X%02X%02X%02X%02X%02X%02X%02X%02X%02X%02X%02X%02X%02X'' @
           log_lines (g_ble_uart_is_connected s) ''APP'' ''DevAddr = %04LX''
      else log_lines (g_ble_uart_is_connected s) ''APP'' ''Join network failed'')"

definition rx_data_calls :: "app_state \<Rightarrow> call list" where
  "rx_data_calls s =
     log_lines (g_ble_uart_is_connected s) ''APP'' ''Received package over LoRa'' @
     log_lines (g_ble_uart_is_connected s) ''APP'' ''RSSI %d SNR %d'' @
     log_lines (g_ble_uart_is_connected s) ''APP'' ''%s''"

definition tx_fin_log :: "app_state \<Rightarrow> call list" where
  "tx_fin_log s =
     log_lines (g_ble_uart_is_connected s) ''APP''
       (if confirmed_msg_enabled (g_lorawan_settings s) = LMH_UNCONFIRMED_MSG
        then ''LPWAN TX cycle finished''
        else ''LPWAN TX cycle '' @ (if g_rx_fin_result s then ''finished ACK'' else ''failed NAK''))"

subsection \<open>Further concrete states\<close>


text \<open>
  A tx-finished event pending in unconfirmed mode, with a negative result and nine
  failures counted so far.
\<close>

definition unconfirmed_nak_state :: app_state where
  "unconfirmed_nak_state =
     joined_state\<lparr>g_task_event_type := LORA_TX_FIN,
       g_lorawan_settings := \<lparr>lorawan_enable = True, confirmed_msg_enabled = LMH_UNCONFIRMED_MSG\<rparr>,
       g_rx_fin_result := False, send_fail := 9\<rparr>"

section \<open>Auxiliary facts\<close>

lemmas flag_defs = STATUS_def N_STATUS_def BLE_DATA_def N_BLE_DATA_def LORA_DATA_def
  N_LORA_DATA_def LORA_TX_FIN_def N_LORA_TX_FIN_def LORA_JOIN_FIN_def N_LORA_JOIN_FIN_def

lemma cycle_calls_append: "calls s' = calls s @ xs \<Longrightarrow> cycle_calls s s' = xs"
  by (simp add: cycle_calls_def)

lemma or_and_same: "(w OR k) AND k = (k::uint16_t)"
  by (auto simp: bit_eq_iff bit_and_iff bit_or_iff)

subsection \<open>The battery loop\<close>

lemma batt_loop_eq:
  "readings \<le> 10 \<Longrightarrow>
   batt_loop readings acc s =
     (acc + (\<Sum>k < nat (10 - readings). batt_source s (batt_reads s + k)),
      s\<lparr>batt_reads := batt_reads s + nat (10 - readings),
        calls := calls s @ replicate (nat (10 - readings)) ReadBatt\<rparr>)"
proof (induction readings acc s rule: batt_loop.induct)
  case (1 readings acc s)
  show ?case
  proof (cases "readings < 10")
    case True
    then have n: "nat (10 - readings) = Suc (nat (10 - (readings + 1)))" by simp
    have "batt_loop readings acc s =
        batt_loop (readings + 1) (acc + batt_source s (batt_reads s))
          (call_out ReadBatt (s\<lparr>batt_reads := batt_reads s + 1\<rparr>))"
      using True by (subst batt_loop.simps) (simp add: read_batt_def)
    also have "\<dots> = (acc + (\<Sum>k < nat (10 - readings). batt_source s (batt_reads s + k)),
      s\<lparr>batt_reads := batt_reads s + nat (10 - readings),
        calls := calls s @ replicate (nat (10 - readings)) ReadBatt\<rparr>)"
      using True
      apply (subst "1.IH" [OF True])
         apply (simp add: read_batt_def)
        apply simp
      apply (simp only: n)
      apply (simp add: call_out_def sum.lessThan_Suc_shift replicate_app_Cons_same add.assoc
            del: sum.lessThan_Suc)
      done
    finally show ?thesis .
  next
    case False
    with 1 have "readings = 10" by simp
    then show ?thesis by (subst batt_loop.simps) simp
  qed
qed

lemma batt_loop_0:
  "batt_loop 0 0 s =
     ((\<Sum>k < 10. batt_source s (batt_reads s + k)),
      s\<lparr>batt_reads := batt_reads s + 10, calls := calls s @ replicate 10 ReadBatt\<rparr>)"
  using batt_loop_eq [of 0 0 s] by simp

subsection \<open>The handlers as state updates\<close>

lemma MYLOG_eq:
  "MYLOG tag msg s = s\<lparr>calls := calls s @ log_lines (g_ble_uart_is_connected s) tag msg\<rparr>"
  by (simp add: MYLOG_def call_out_def log_lines_def Let_def)

lemmas io_defs = call_out_def digitalWrite_def delay_def read_batt_def
  send_lora_packet_def send_p2p_packet_def lmh_getNwSkey_def lmh_getAppSkey_def
  at_serial_input_def api_reset_def payload_reset_def payload_addVoltage_def

lemma status_event_eq:
  "status_event s =
     s\<lparr>payload := [batt_record s], batt_reads := batt_reads s + 10,
       calls := calls s @ log_lines (g_ble_uart_is_connected s) ''APP'' ''Timer wakeup'' @
                [DigitalWrite WB_IO2 HIGH] @ replicate 10 ReadBatt @ status_tx_calls s @
                [DigitalWrite WB_IO2 LOW]\<rparr>"
  by (cases "send_lora_result s")
     (simp_all add: status_event_def batt_loop_0 MYLOG_eq io_defs Let_def batt_record_def
        status_tx_calls_def enqueue_message_def payload_maxsize_def LPP_VOLTAGE_SIZE_def)

lemma log_lines_no_reset [simp]: "ApiReset \<notin> set (log_lines ble tag msg)"
  by (simp add: log_lines_def)

lemma log_lines_is_log [simp]: "\<forall>c \<in> set (log_lines ble tag msg). is_log c"
  by (auto simp: log_lines_def)

lemma log_lines_no_tx [simp]: "filter is_tx (log_lines ble tag msg) = []"
  by (simp add: log_lines_def)

lemma log_lines_no_at [simp]: "filter is_at_input (log_lines ble tag msg) = []"
  by (simp add: log_lines_def)

lemma lora_join_fin_event_eq:
  "lora_join_fin_event s = s\<lparr>calls := calls s @ join_fin_calls s\<rparr>"
  by (simp add: lora_join_fin_event_def join_fin_calls_def MYLOG_eq io_defs Let_def)

lemma lora_data_event_eq:
  "lora_data_event s = s\<lparr>calls := calls s @ rx_data_calls s\<rparr>"
  by (simp add: lora_data_event_def rx_data_calls_def MYLOG_eq Let_def)

lemma lora_tx_fin_event_eq:
  "lora_tx_fin_event s =
     (if lorawan_enable (g_lorawan_settings s)
      then (if g_rx_fin_result s then s\<lparr>calls := calls s @ tx_fin_log s\<rparr>
            else if send_fail s + 1 = 10
                 then s\<lparr>send_fail := send_fail s + 1,
                        calls := calls s @ tx_fin_log s @ [Delay 100, ApiReset],
                        restarted := True\<rparr>
                 else s\<lparr>send_fail := send_fail s + 1, calls := calls s @ tx_fin_log s\<rparr>)
      else s\<lparr>calls := calls s @ log_lines (g_ble_uart_is_connected s) ''APP'' ''P2P TX finished''\<rparr>)"
  by (simp add: lora_tx_fin_event_def tx_fin_log_def MYLOG_eq io_defs Let_def)

lemma join_fin_calls_no_reset [simp]: "ApiReset \<notin> set (join_fin_calls s)"
  by (simp add: join_fin_calls_def)

lemma rx_data_calls_no_reset [simp]: "ApiReset \<notin> set (rx_data_calls s)"
  by (simp add: rx_data_calls_def)

lemma tx_fin_log_no_reset [simp]: "ApiReset \<notin> set (tx_fin_log s)"
  by (simp add: tx_fin_log_def)

text \<open>The first two blocks of \<open>lora_data_handler\<close> leave everything but the flag word and the trace.\<close>

lemma lora_first_blocks:
  "\<exists>w xs. lora_data_block (lora_join_fin_block s) = s\<lparr>g_task_event_type := w, calls := calls s @ xs\<rparr>
     \<and> ApiReset \<notin> set xs
     \<and> w AND LORA_TX_FIN = g_task_event_type s AND LORA_TX_FIN"
proof -
  let ?w0 = "g_task_event_type s"
  let ?s1 = "lora_join_fin_block s"
  have "\<exists>w xs. ?s1 = s\<lparr>g_task_event_type := w, calls := calls s @ xs\<rparr>
     \<and> ApiReset \<notin> set xs \<and> w AND LORA_TX_FIN = ?w0 AND LORA_TX_FIN"
  proof (cases "?w0 AND LORA_JOIN_FIN = LORA_JOIN_FIN")
    case True
    have "(?w0 AND N_LORA_JOIN_FIN) AND LORA_TX_FIN = ?w0 AND LORA_TX_FIN"
      by (simp add: flag_defs and.assoc)
    with True show ?thesis
      by (intro exI [of _ "?w0 AND N_LORA_JOIN_FIN"] exI [of _ "join_fin_calls s"])
         (simp add: lora_join_fin_block_def lora_join_fin_event_eq join_fin_calls_def)
  next
    case False
    then show ?thesis
      by (intro exI [of _ ?w0] exI [of _ "[]"]) (simp add: lora_join_fin_block_def)
  qed
  then obtain w1 xs1 where s1: "?s1 = s\<lparr>g_task_event_type := w1, calls := calls s @ xs1\<rparr>"
    and xs1: "ApiReset \<notin> set xs1" and w1: "w1 AND LORA_TX_FIN = ?w0 AND LORA_TX_FIN"
    by blast
  show ?thesis
  proof (cases "w1 AND LORA_DATA = LORA_DATA")
    case True
    have "(w1 AND N_LORA_DATA) AND LORA_TX_FIN = w1 AND LORA_TX_FIN"
      by (simp add: flag_defs and.assoc)
    with True w1 xs1 show ?thesis
      by (intro exI [of _ "w1 AND N_LORA_DATA"] exI [of _ "xs1 @ rx_data_calls ?s1"])
         (simp add: s1 lora_data_block_def lora_data_event_eq rx_data_calls_def)
  next
    case False
    with w1 xs1 show ?thesis
      by (intro exI [of _ w1] exI [of _ xs1]) (simp add: s1 lora_data_block_def)
  qed
qed

text \<open>The whole handler on a tx-finished event, seen through the fields the counter logic uses.\<close>

lemma lora_data_handler_tx_fin:
  assumes bit: "g_task_event_type s AND LORA_TX_FIN = LORA_TX_FIN"
    and en: "lorawan_enable (g_lorawan_settings s)"
  shows "send_fail (lora_data_handler s) =
           (if g_rx_fin_result s then send_fail s else send_fail s + 1)"
    and "g_lorawan_settings (lora_data_handler s) = g_lorawan_settings s"
    and "restarted (lora_data_handler s) =
           (restarted s \<or> \<not> g_rx_fin_result s \<and> send_fail s + 1 = 10)"
    and "\<exists>xs. ApiReset \<notin> set xs \<and>
           calls (lora_data_handler s) =
             calls s @ xs @
             (if \<not> g_rx_fin_result s \<and> send_fail s + 1 = 10 then [Delay 100, ApiReset] else [])"
proof -
  obtain w xs where pre: "lora_data_block (lora_join_fin_block s) =
      s\<lparr>g_task_event_type := w, calls := calls s @ xs\<rparr>"
    and xs: "ApiReset \<notin> set xs"
    and w: "w AND LORA_TX_FIN = g_task_event_type s AND LORA_TX_FIN"
    using lora_first_blocks [of s] by blast
  define t where "t = (s\<lparr>g_task_event_type := w, calls := calls s @ xs\<rparr>)
      \<lparr>g_task_event_type := w AND N_LORA_TX_FIN\<rparr>"
  have h: "lora_data_handler s = lora_tx_fin_event t"
    using bit w by (simp add: lora_data_handler_def pre lora_tx_fin_block_def t_def)
  have t: "send_fail t = send_fail s" "g_lorawan_settings t = g_lorawan_settings s"
    "restarted t = restarted s" "g_rx_fin_result t = g_rx_fin_result s"
    "calls t = calls s @ xs"
    by (simp_all add: t_def)
  show "send_fail (lora_data_handler s) =
           (if g_rx_fin_result s then send_fail s else send_fail s + 1)"
    using en by (simp add: h lora_tx_fin_event_eq t)
  show "g_lorawan_settings (lora_data_handler s) = g_lorawan_settings s"
    by (simp add: h lora_tx_fin_event_eq t)
  show "restarted (lora_data_handler s) =
           (restarted s \<or> \<not> g_rx_fin_result s \<and> send_fail s + 1 = 10)"
    using en by (simp add: h lora_tx_fin_event_eq t)
  show "\<exists>xs. ApiReset \<notin> set xs \<and>
           calls (lora_data_handler s) =
             calls s @ xs @
             (if \<not> g_rx_fin_result s \<and> send_fail s + 1 = 10 then [Delay 100, ApiReset] else [])"
    using en xs
    by (intro exI [of _ "xs @ tx_fin_log t"]) (simp add: h lora_tx_fin_event_eq t)
qed

lemma tx_finished_events_restarted: "restarted s \<Longrightarrow> tx_finished_events acks s = s"
  by (cases acks) simp_all

lemma tx_complete_fields:
  "g_task_event_type (tx_complete a s) AND LORA_TX_FIN = LORA_TX_FIN"
  "g_rx_fin_result (tx_complete a s) = a"
  "g_lorawan_settings (tx_complete a s) = g_lorawan_settings s"
  "send_fail (tx_complete a s) = send_fail s"
  "calls (tx_complete a s) = calls s"
  "restarted (tx_complete a s) = restarted s"
  by (simp_all add: tx_complete_def api_wake_loop_def or_and_same)

lemma nak_step:
  assumes en: "lorawan_enable (g_lorawan_settings s)"
  defines "s' \<equiv> lora_data_handler (tx_complete False s)"
  shows "send_fail s' = send_fail s + 1"
    and "g_lorawan_settings s' = g_lorawan_settings s"
    and "restarted s' = (restarted s \<or> send_fail s + 1 = 10)"
    and "count_list (calls s') ApiReset =
           count_list (calls s) ApiReset + (if send_fail s + 1 = 10 then 1 else 0)"
proof -
  let ?t = "tx_complete False s"
  have en': "lorawan_enable (g_lorawan_settings ?t)"
    using en by (simp add: tx_complete_fields)
  note h = lora_data_handler_tx_fin [OF tx_complete_fields(1) [of False s] en']
  show "send_fail s' = send_fail s + 1"
    using h(1) by (simp add: s'_def tx_complete_fields)
  show "g_lorawan_settings s' = g_lorawan_settings s"
    using h(2) by (simp add: s'_def tx_complete_fields)
  show "restarted s' = (restarted s \<or> send_fail s + 1 = 10)"
    using h(3) by (simp add: s'_def tx_complete_fields)
  obtain xs where "ApiReset \<notin> set xs" and "calls s' =
      calls s @ xs @ (if send_fail s + 1 = 10 then [Delay 100, ApiReset] else [])"
    using h(4) by (auto simp: s'_def tx_complete_fields)
  then show "count_list (calls s') ApiReset =
           count_list (calls s) ApiReset + (if send_fail s + 1 = 10 then 1 else 0)"
    by (simp add: count_list_0_iff)
qed

lemma counter_hits_ten:
  assumes "k < 10"
  shows "((of_nat k :: uint8_t) + 1 = 10) = (Suc k = 10)"
proof
  assume "(of_nat k :: uint8_t) + 1 = 10"
  then have "unat (of_nat (Suc k) :: uint8_t) = unat (10 :: uint8_t)"
    by simp
  then show "Suc k = 10"
    using assms by (simp add: unat_of_nat del: of_nat_Suc)
next
  assume "Suc k = 10"
  then have "k = 9" by simp
  then show "(of_nat k :: uint8_t) + 1 = 10" by simp
qed

lemma nak_run:
  "lorawan_enable (g_lorawan_settings s) \<Longrightarrow> \<not> restarted s \<Longrightarrow>
   send_fail s = of_nat k \<Longrightarrow> k < 10 \<Longrightarrow>
   send_fail (tx_finished_events (replicate n False) s) = of_nat (min (k + n) 10) \<and>
   restarted (tx_finished_events (replicate n False) s) = (10 \<le> k + n) \<and>
   count_list (calls (tx_finished_events (replicate n False) s)) ApiReset =
     count_list (calls s) ApiReset + (if 10 \<le> k + n then 1 else 0)"
proof (induction n arbitrary: s k)
  case 0
  then show ?case by simp
next
  case (Suc n)
  let ?s1 = "lora_data_handler (tx_complete False s)"
  note st = nak_step [OF Suc.prems(1)]
  have sf: "send_fail ?s1 = of_nat (Suc k)"
    using st(1) Suc.prems(3) by simp
  have ten: "(send_fail s + 1 = 10) = (Suc k = 10)"
    using counter_hits_ten [OF Suc.prems(4)] Suc.prems(3) by simp
  have unfold: "tx_finished_events (replicate (Suc n) False) s =
      tx_finished_events (replicate n False) ?s1"
    using Suc.prems(2) by simp
  show ?case
  proof (cases "Suc k = 10")
    case True
    then have r: "restarted ?s1" using st(3) ten by simp
    have k: "k = 9" using True by simp
    show ?thesis
      using st(4) ten sf
      by (simp only: unfold tx_finished_events_restarted [OF r]) (simp add: r k)
  next
    case False
    then have k': "Suc k < 10" using Suc.prems(4) by simp
    have r: "\<not> restarted ?s1" using st(3) ten False Suc.prems(2) by simp
    have en: "lorawan_enable (g_lorawan_settings ?s1)" using st(2) Suc.prems(1) by simp
    show ?thesis
      using Suc.IH [OF en r sf k'] st(4) ten False
      by (simp only: unfold) simp
  qed
qed

subsection \<open>The BLE loop\<close>





subsection \<open>The flag word\<close>






section \<open>The failure counter\<close>

text \<open>
  C1, as amended. A tx-finished event handled with wide-area mode enabled, confirmed mode
  off and the result flag \<open>g_rx_fin_result\<close> true only logs: \<open>send_fail\<close> keeps its value,
  \<open>api_reset\<close> is not called, and the tx-finished block of the handler is one \<open>MYLOG\<close>.
  With the result flag false the handler increments \<open>send_fail\<close> in unconfirmed mode as
  well: the test of the flag does not depend on the confirmed-message setting.
\<close>

theorem unconfirmed_tx_fin_counter:
  assumes "lorawan_enable (g_lorawan_settings s)"
    and "confirmed_msg_enabled (g_lorawan_settings s) = LMH_UNCONFIRMED_MSG"
    and "g_task_event_type s AND LORA_TX_FIN = LORA_TX_FIN"
  shows "(g_rx_fin_result s \<longrightarrow>
            send_fail (lora_data_handler s) = send_fail s \<and>
            ApiReset \<notin> set (cycle_calls s (lora_data_handler s)) \<and>
            restarted (lora_data_handler s) = restarted s \<and>
            lora_tx_fin_event s = MYLOG ''APP'' ''LPWAN TX cycle finished'' s) \<and>
         (\<not> g_rx_fin_result s \<longrightarrow> send_fail (lora_data_handler s) = send_fail s + 1)"
proof -
  note h = lora_data_handler_tx_fin [OF assms(3) assms(1)]
  obtain xs where xs: "ApiReset \<notin> set xs"
    and c: "calls (lora_data_handler s) =
       calls s @ xs @
       (if \<not> g_rx_fin_result s \<and> send_fail s + 1 = 10 then [Delay 100, ApiReset] else [])"
    using h(4) by blast
  have "g_rx_fin_result s \<Longrightarrow> cycle_calls s (lora_data_handler s) = xs"
    using c by (simp add: cycle_calls_def)
  moreover have "g_rx_fin_result s \<Longrightarrow>
      lora_tx_fin_event s = MYLOG ''APP'' ''LPWAN TX cycle finished'' s"
    using assms(1,2) by (simp add: lora_tx_fin_event_def Let_def MYLOG_eq)
  ultimately show ?thesis
    using h(1) h(3) xs by simp
qed

theorem unconfirmed_tx_fin_counter_witness:
  "send_fail (lora_data_handler (unconfirmed_nak_state\<lparr>g_rx_fin_result := True\<rparr>)) = 9 \<and>
   \<not> restarted (lora_data_handler (unconfirmed_nak_state\<lparr>g_rx_fin_result := True\<rparr>)) \<and>
   send_fail (lora_data_handler (unconfirmed_nak_state\<lparr>send_fail := 3\<rparr>)) = 4"
  using unconfirmed_tx_fin_counter [of "unconfirmed_nak_state\<lparr>g_rx_fin_result := True\<rparr>"]
    unconfirmed_tx_fin_counter [of "unconfirmed_nak_state\<lparr>send_fail := 3\<rparr>"]
  by (simp add: unconfirmed_nak_state_def joined_state_def flag_defs)

text \<open>
  C1, as stated, fails: in unconfirmed mode with nine failures counted, a tx-finished
  event with a negative result raises \<open>send_fail\<close> to 10 and calls \<open>api_reset\<close>.
\<close>

theorem unconfirmed_nak_counts:
  "lorawan_enable (g_lorawan_settings unconfirmed_nak_state) \<and>
   confirmed_msg_enabled (g_lorawan_settings unconfirmed_nak_state) = LMH_UNCONFIRMED_MSG \<and>
   g_task_event_type unconfirmed_nak_state AND LORA_TX_FIN = LORA_TX_FIN \<and>
   send_fail unconfirmed_nak_state = 9 \<and>
   send_fail (lora_data_handler unconfirmed_nak_state) = 10 \<and>
   ApiReset \<in> set (cycle_calls unconfirmed_nak_state (lora_data_handler unconfirmed_nak_state))"
  by (simp add: unconfirmed_nak_state_def joined_state_def flag_defs lora_data_handler_def
      lora_join_fin_block_def lora_data_block_def lora_tx_fin_block_def lora_tx_fin_event_eq
      tx_fin_log_def log_lines_def cycle_calls_def)

text \<open>
  C8. A tx-finished event handled with wide-area mode enabled, confirmed mode on and
  \<open>g_rx_fin_result\<close> true leaves \<open>send_fail\<close> as it is: the handler neither resets nor
  decrements the counter.
\<close>

theorem confirmed_ack_keeps_counter:
  assumes "lorawan_enable (g_lorawan_settings s)"
    and "confirmed_msg_enabled (g_lorawan_settings s) = LMH_CONFIRMED_MSG"
    and "g_rx_fin_result s"
    and "g_task_event_type s AND LORA_TX_FIN = LORA_TX_FIN"
  shows "send_fail (lora_data_handler s) = send_fail s"
  using lora_data_handler_tx_fin(1) [OF assms(4) assms(1)] assms(3) by simp

theorem confirmed_ack_keeps_counter_witness:
  "send_fail (lora_data_handler (joined_state\<lparr>g_task_event_type := LORA_TX_FIN, send_fail := 7\<rparr>)) = 7"
  using confirmed_ack_keeps_counter
          [of "joined_state\<lparr>g_task_event_type := LORA_TX_FIN, send_fail := 7\<rparr>"]
  by (simp add: joined_state_def flag_defs)

text \<open>
  C2. With wide-area mode and confirmed mode enabled and \<open>send_fail = 0\<close>, after \<open>n\<close>
  tx-finished events with acknowledged = false the counter is \<open>n\<close> as long as \<open>n \<le> 10\<close>;
  \<open>api_reset\<close> has been called once if \<open>n \<ge> 10\<close>, that is on the tenth event, and not at
  all if \<open>n < 10\<close>.
\<close>

theorem ten_naks_restart_once:
  assumes "lorawan_enable (g_lorawan_settings s)"
    and "confirmed_msg_enabled (g_lorawan_settings s) = LMH_CONFIRMED_MSG"
    and "send_fail s = 0"
    and "\<not> restarted s"
  shows "unat (send_fail (tx_finished_events (replicate n False) s)) = min n 10 \<and>
         count_list (calls (tx_finished_events (replicate n False) s)) ApiReset =
           count_list (calls s) ApiReset + (if 10 \<le> n then 1 else 0) \<and>
         restarted (tx_finished_events (replicate n False) s) = (10 \<le> n)"
proof -
  have "send_fail s = of_nat 0" using assms(3) by simp
  from nak_run [OF assms(1) assms(4) this, of n]
  have r: "send_fail (tx_finished_events (replicate n False) s) = of_nat (min n 10)"
    "restarted (tx_finished_events (replicate n False) s) = (10 \<le> n)"
    "count_list (calls (tx_finished_events (replicate n False) s)) ApiReset =
       count_list (calls s) ApiReset + (if 10 \<le> n then 1 else 0)"
    by simp_all
  have "unat (of_nat (min n 10) :: uint8_t) = min n 10"
    by (simp add: unat_of_nat min_def)
  with r show ?thesis by simp
qed

theorem ten_naks_restart_once_witness:
  "unat (send_fail (tx_finished_events (replicate 9 False) joined_state)) = 9 \<and>
   count_list (calls (tx_finished_events (replicate 9 False) joined_state)) ApiReset = 0 \<and>
   unat (send_fail (tx_finished_events (replicate 10 False) joined_state)) = 10 \<and>
   count_list (calls (tx_finished_events (replicate 10 False) joined_state)) ApiReset = 1 \<and>
   count_list (calls (tx_finished_events (replicate 25 False) joined_state)) ApiReset = 1"
  using ten_naks_restart_once [of joined_state 9] ten_naks_restart_once [of joined_state 10]
    ten_naks_restart_once [of joined_state 25]
  by (simp add: joined_state_def)

section \<open>The status event\<close>

text \<open>
  C4. A status event handled while wide-area mode is disabled makes exactly one
  transmission call: \<open>send_p2p_packet\<close> with the encoded payload, the single battery
  record. \<open>send_lora_packet\<close> is not called.
\<close>

theorem status_p2p_when_lorawan_disabled:
  assumes "g_task_event_type s AND STATUS = STATUS"
    and "\<not> lorawan_enable (g_lorawan_settings s)"
  shows "filter is_tx (cycle_calls s (app_event_handler s)) = [SendP2PPacket [batt_record s]]"
  using assms
  by (simp add: app_event_handler_def status_event_eq cycle_calls_def status_tx_calls_def
        batt_record_def)

theorem status_p2p_when_lorawan_disabled_witness:
  "filter is_tx
     (cycle_calls
        (joined_state\<lparr>g_task_event_type := STATUS,
           g_lorawan_settings := \<lparr>lorawan_enable = False, confirmed_msg_enabled = LMH_UNCONFIRMED_MSG\<rparr>\<rparr>)
        (app_event_handler
           (joined_state\<lparr>g_task_event_type := STATUS,
              g_lorawan_settings := \<lparr>lorawan_enable = False, confirmed_msg_enabled = LMH_UNCONFIRMED_MSG\<rparr>\<rparr>))) =
   [SendP2PPacket [\<lparr>lpp_channel = 1, lpp_kind = LPP_VOLTAGE, lpp_value = 42 / 10\<rparr>]]"
  using status_p2p_when_lorawan_disabled
     [of "joined_state\<lparr>g_task_event_type := STATUS,
           g_lorawan_settings := \<lparr>lorawan_enable = False, confirmed_msg_enabled = LMH_UNCONFIRMED_MSG\<rparr>\<rparr>"]
  by (simp add: joined_state_def batt_record_def LPP_CHANNEL_BATT_def STATUS_def)

text \<open>
  C5. A status event handled while wide-area mode is enabled and the device has not
  joined makes no transmission call: neither \<open>send_lora_packet\<close> nor \<open>send_p2p_packet\<close>.
\<close>

theorem status_no_tx_when_not_joined:
  assumes "g_task_event_type s AND STATUS = STATUS"
    and "lorawan_enable (g_lorawan_settings s)"
    and "\<not> g_lpwan_has_joined s"
  shows "filter is_tx (cycle_calls s (app_event_handler s)) = []"
  using assms
  by (simp add: app_event_handler_def status_event_eq cycle_calls_def status_tx_calls_def)

theorem status_no_tx_when_not_joined_witness:
  "filter is_tx
     (cycle_calls (joined_state\<lparr>g_task_event_type := STATUS, g_lpwan_has_joined := False\<rparr>)
        (app_event_handler (joined_state\<lparr>g_task_event_type := STATUS, g_lpwan_has_joined := False\<rparr>))) = []"
  using status_no_tx_when_not_joined
     [of "joined_state\<lparr>g_task_event_type := STATUS, g_lpwan_has_joined := False\<rparr>"]
  by (simp add: joined_state_def STATUS_def)

text \<open>
  C7. The handling of a status event starts from an empty payload buffer: what the
  buffer holds on entry has no influence on the outcome. Every transmission call of
  the cycle carries exactly one record, the battery voltage, and this is also the
  content of the buffer when the handler returns.
\<close>

theorem status_payload_one_record:
  assumes "g_task_event_type s AND STATUS = STATUS"
  shows "app_event_handler (s\<lparr>payload := p\<rparr>) = app_event_handler (s\<lparr>payload := []\<rparr>) \<and>
         (\<forall>c \<in> set (cycle_calls s (app_event_handler s)).
             is_tx c \<longrightarrow> tx_payload c = [batt_record s]) \<and>
         payload (app_event_handler s) = [batt_record s]"
proof -
  let ?t = "s\<lparr>g_task_event_type := g_task_event_type s AND N_STATUS\<rparr>"
  have h: "app_event_handler s = status_event ?t"
    using assms by (simp add: app_event_handler_def)
  have "app_event_handler (s\<lparr>payload := p\<rparr>) = app_event_handler (s\<lparr>payload := []\<rparr>)"
    using assms
    by (simp add: app_event_handler_def status_event_eq batt_record_def status_tx_calls_def)
  moreover have "\<forall>c \<in> set (cycle_calls s (app_event_handler s)).
             is_tx c \<longrightarrow> tx_payload c = [batt_record s]"
    by (auto simp: h status_event_eq cycle_calls_def status_tx_calls_def batt_record_def
          log_lines_def)
  moreover have "payload (app_event_handler s) = [batt_record s]"
    by (simp add: h status_event_eq batt_record_def)
  ultimately show ?thesis by simp
qed

theorem status_payload_one_record_witness:
  "app_event_handler
     (joined_state\<lparr>g_task_event_type := STATUS,
        payload := [\<lparr>lpp_channel = 1, lpp_kind = LPP_VOLTAGE, lpp_value = 3\<rparr>,
                    \<lparr>lpp_channel = 1, lpp_kind = LPP_VOLTAGE, lpp_value = 4\<rparr>]\<rparr>) =
   app_event_handler (joined_state\<lparr>g_task_event_type := STATUS, payload := []\<rparr>) \<and>
   SendLoraPacket [\<lparr>lpp_channel = 1, lpp_kind = LPP_VOLTAGE, lpp_value = 42 / 10\<rparr>] 2
     \<in> set (cycle_calls (joined_state\<lparr>g_task_event_type := STATUS\<rparr>)
              (app_event_handler (joined_state\<lparr>g_task_event_type := STATUS\<rparr>))) \<and>
   payload (app_event_handler (joined_state\<lparr>g_task_event_type := STATUS\<rparr>)) =
     [\<lparr>lpp_channel = 1, lpp_kind = LPP_VOLTAGE, lpp_value = 42 / 10\<rparr>]"
proof -
  let ?s = "joined_state\<lparr>g_task_event_type := STATUS\<rparr>"
  have b: "g_task_event_type ?s AND STATUS = STATUS" by simp
  have r: "batt_record ?s = \<lparr>lpp_channel = 1, lpp_kind = LPP_VOLTAGE, lpp_value = 42 / 10\<rparr>"
    by (simp add: batt_record_def joined_state_def LPP_CHANNEL_BATT_def)
  have m: "SendLoraPacket [batt_record ?s] 2 \<in> set (cycle_calls ?s (app_event_handler ?s))"
    by (simp add: app_event_handler_def status_event_eq cycle_calls_def status_tx_calls_def
          joined_state_def batt_record_def)
  from status_payload_one_record [OF b, of "[\<lparr>lpp_channel = 1, lpp_kind = LPP_VOLTAGE, lpp_value = 3\<rparr>,
                    \<lparr>lpp_channel = 1, lpp_kind = LPP_VOLTAGE, lpp_value = 4\<rparr>]"] m r
  show ?thesis by simp
qed

section \<open>The command bridge\<close>



text \<open>
  C10. With the BLE link disabled, the link-data handler invoked with \<open>BLE_DATA\<close> pending
  changes nothing: it makes no call, so neither a byte nor a terminator reaches the
  command interpreter, and \<open>BLE_DATA\<close> stays set.
\<close>

theorem ble_disabled_changes_nothing:
  assumes "\<not> g_enable_ble s"
    and "g_task_event_type s AND BLE_DATA = BLE_DATA"
  shows "ble_data_handler s = s \<and>
         cycle_calls s (ble_data_handler s) = [] \<and>
         g_task_event_type (ble_data_handler s) AND BLE_DATA = BLE_DATA"
  using assms by (simp add: ble_data_handler_def cycle_calls_def)

theorem ble_disabled_changes_nothing_witness:
  "ble_data_handler (joined_state\<lparr>g_task_event_type := BLE_DATA, g_enable_ble := False,
       ble_rx := [0x41, 0x54]\<rparr>) =
   joined_state\<lparr>g_task_event_type := BLE_DATA, g_enable_ble := False, ble_rx := [0x41, 0x54]\<rparr>"
  using ble_disabled_changes_nothing
     [of "joined_state\<lparr>g_task_event_type := BLE_DATA, g_enable_ble := False, ble_rx := [0x41, 0x54]\<rparr>"]
  by (simp add: joined_state_def BLE_DATA_def)

section \<open>The event flags\<close>




end
